theory Spec2Isabelle
  imports Complex_Main
begin

section \<open>Python values, exceptions and numpy floats\<close>

text \<open>
  The two modules (\<^verbatim>\<open>model/predict.py\<close> and \<^verbatim>\<open>model/train_model.py\<close>) compute on Python
  numbers and strings. A cell of an input record is a number or a string. Python's \<^verbatim>\<open>int\<close>
  and \<^verbatim>\<open>float\<close> are both read as the real number they denote. The special values of a
  numpy division by zero are modelled (type \<open>npfloat\<close>). The rounding of binary floating
  point is modelled where a result is turned into an integer, in the breakdown of a
  prediction: there every operation is followed by the rounding function of the float
  format, a parameter \<open>rnd\<close> of the model, which is \<open>b64\<close> for Python's floats. Elsewhere
  the operations are exact.
  An arithmetic operation applied to a string is a \<^verbatim>\<open>TypeError\<close> (Python's repetition of a
  string by an integer is left out), the square of an integer cell does not wrap around as
  an int64 column would, and the texts of the exceptions raised inside the libraries are
  abbreviated.
\<close>

datatype pyval = Num real | Str string

datatype py_error =
    ValueError string
  | KeyError string
  | TypeError string
  | ZeroDivisionError string
  | IndexError string
  | AttributeError string

text \<open>\<^verbatim>\<open>str(e)\<close>: the message; for a \<^verbatim>\<open>KeyError\<close> the quoted key.\<close>

fun str_exc :: "py_error \<Rightarrow> string" where
  "str_exc (ValueError m) = m"
| "str_exc (KeyError k) = CHR 0x27 # k @ [CHR 0x27]"
| "str_exc (TypeError m) = m"
| "str_exc (ZeroDivisionError m) = m"
| "str_exc (IndexError m) = m"
| "str_exc (AttributeError m) = m"

text \<open>
  A numpy float64 result: a finite number, an infinity or not-a-number. numpy does not raise
  on a division by zero (the module silences the warnings), it returns one of the specials.
\<close>

datatype npfloat = Fin real | PInf | NInf | NaN

definition np_div :: "real \<Rightarrow> real \<Rightarrow> npfloat" where
  "np_div a b =
     (if b = 0 then (if a = 0 then NaN else if 0 < a then PInf else NInf)
      else Fin (a / b))"

text \<open>\<^verbatim>\<open>c - x\<close> for a finite \<open>c\<close>.\<close>

fun np_rsub :: "real \<Rightarrow> npfloat \<Rightarrow> npfloat" where
  "np_rsub c (Fin x) = Fin (c - x)"
| "np_rsub c PInf = NInf"
| "np_rsub c NInf = PInf"
| "np_rsub c NaN = NaN"

text \<open>\<^verbatim>\<open>np.maximum(c, x)\<close> for a finite \<open>c\<close>: not-a-number propagates.\<close>

fun np_maximum :: "real \<Rightarrow> npfloat \<Rightarrow> npfloat" where
  "np_maximum c (Fin x) = Fin (max c x)"
| "np_maximum c PInf = PInf"
| "np_maximum c NInf = Fin c"
| "np_maximum c NaN = NaN"

text \<open>\<^verbatim>\<open>np.std\<close> of a non-empty sample: the population standard deviation.\<close>

definition np_mean :: "real list \<Rightarrow> real" where
  "np_mean xs = sum_list xs / real (length xs)"

definition np_std :: "real list \<Rightarrow> real" where
  "np_std xs = sqrt (np_mean (map (\<lambda>x. (x - np_mean xs)\<^sup>2) xs))"

text \<open>
  Python's \<^verbatim>\<open>round(x)\<close> with one argument: the nearest integer, a tie going to the even
  neighbour.
\<close>

definition py_round :: "real \<Rightarrow> int" where
  "py_round x =
     (let f = \<lfloor>x\<rfloor>; d = x - of_int f
      in if d < 1 / 2 then f else if 1 / 2 < d then f + 1
         else if even f then f else f + 1)"

text \<open>
  The rounding of a real number to binary64: the nearest number with a significand of 53
  bits, a tie going to the even significand. The unit in the last place of \<open>x\<close> is
  \<open>2\<close> to the power \<open>\<lfloor>log\<^sub>2 \<bar>x\<bar>\<rfloor> - 52\<close>. Overflow and subnormal numbers are left out.
\<close>

definition b64 :: "real \<Rightarrow> real" where
  "b64 x =
     (if x = 0 then 0
      else (let u = 2 powr (of_int \<lfloor>log 2 \<bar>x\<bar>\<rfloor> - 52)
            in of_int (py_round (x / u)) * u))"

section \<open>The model artifact bundle and the predictor object\<close>

text \<open>
  \<^verbatim>\<open>model_artifacts\<close> is the dictionary written by \<^verbatim>\<open>train_model\<close>. The scaler, the forest and
  its trees are scikit-learn objects, which are not part of the repository: they are
  parameters, functions that return a number or raise. A \<^verbatim>\<open>LabelEncoder\<close> is its list of
  classes; \<^verbatim>\<open>transform\<close> gives the position of a value in it and raises \<^verbatim>\<open>ValueError\<close> for a
  value that is not there.
\<close>

record artifacts =
  label_encoders :: "string \<rightharpoonup> string list"
  feature_columns :: "string list"
  scaler_transform :: "pyval list \<Rightarrow> py_error + real list"
  model_predict :: "real list \<Rightarrow> py_error + real"
  estimators :: "(real list \<Rightarrow> py_error + real) list"

record predictor =
  model_path :: string
  model_artifacts :: "artifacts option"

text \<open>What \<^verbatim>\<open>joblib.load(self.model_path)\<close> does: it returns the bundle or raises.\<close>

datatype load_outcome = Loaded artifacts | FileNotFoundError | LoadException string

text \<open>\<^verbatim>\<open>load_model\<close> (the messages it prints are left out).\<close>

definition load_model :: "predictor \<Rightarrow> load_outcome \<Rightarrow> predictor" where
  "load_model self outcome =
     (case outcome of
        Loaded b \<Rightarrow> self\<lparr>model_artifacts := Some b\<rparr>
      | FileNotFoundError \<Rightarrow> self\<lparr>model_artifacts := None\<rparr>
      | LoadException m \<Rightarrow> self\<lparr>model_artifacts := None\<rparr>)"

text \<open>\<^verbatim>\<open>__init__\<close>.\<close>

definition init_predictor :: "string \<Rightarrow> load_outcome \<Rightarrow> predictor" where
  "init_predictor path outcome =
     load_model \<lparr>model_path = path, model_artifacts = None\<rparr> outcome"

section \<open>Feature encoding\<close>

text \<open>
  The argument of \<^verbatim>\<open>preprocess_input\<close> and \<^verbatim>\<open>predict\<close>: a dictionary, a data frame of one row,
  or an object that is neither. A row maps a column name to its cell. Frames of several rows
  are not modelled.
\<close>

type_synonym row = "string \<rightharpoonup> pyval"

datatype input_data = PyDict row | DataFrame row | PyOther

definition categorical_cols :: "string list" where
  "categorical_cols =
     [''vehicle_type'', ''order_type'', ''weather_condition'', ''time_of_day'', ''day_of_week'']"

fun index_of :: "'a \<Rightarrow> 'a list \<Rightarrow> nat" where
  "index_of x [] = 0"
| "index_of x (y # ys) = (if x = y then 0 else Suc (index_of x ys))"

text \<open>\<^verbatim>\<open>LabelEncoder.transform\<close> on one cell.\<close>

fun transform :: "string list \<Rightarrow> pyval \<Rightarrow> py_error + pyval" where
  "transform classes (Str s) =
     (if s \<in> set classes then Inr (Num (real (index_of s classes)))
      else Inl (ValueError ''y contains previously unseen labels''))"
| "transform classes (Num x) = Inl (ValueError ''y contains previously unseen labels'')"

definition unseen_warning :: "string \<Rightarrow> string" where
  "unseen_warning col = ''Warning: Unseen category in '' @ col @ ''. Using default encoding.''"

text \<open>
  The loop over \<^verbatim>\<open>categorical_cols\<close>. The printed lines are collected in a log, which is
  returned also when the loop raises.
\<close>

fun encode_categorical ::
  "(string \<rightharpoonup> string list) \<Rightarrow> string list \<Rightarrow> row \<Rightarrow> string list
     \<Rightarrow> string list \<times> (py_error + row)" where
  "encode_categorical encs [] df out = (out, Inr df)"
| "encode_categorical encs (col # cols) df out =
     (case df col of
        None \<Rightarrow> encode_categorical encs cols df out
      | Some v \<Rightarrow>
          (case encs col of
             None \<Rightarrow> (out, Inl (KeyError col))
           | Some classes \<Rightarrow>
               (case transform classes v of
                  Inr code \<Rightarrow> encode_categorical encs cols (df(col @ ''_encoded'' \<mapsto> code)) out
                | Inl (ValueError m) \<Rightarrow>
                    encode_categorical encs cols (df(col @ ''_encoded'' \<mapsto> Num 0))
                      (out @ [unseen_warning col])
                | Inl e \<Rightarrow> (out, Inl e))))"

text \<open>\<^verbatim>\<open>df[c]\<close>, \<^verbatim>\<open>x ** 2\<close> and \<^verbatim>\<open>x * y\<close> on cells.\<close>

definition getitem :: "row \<Rightarrow> string \<Rightarrow> py_error + pyval" where
  "getitem df c = (case df c of None \<Rightarrow> Inl (KeyError c) | Some v \<Rightarrow> Inr v)"

fun py_square :: "pyval \<Rightarrow> py_error + pyval" where
  "py_square (Num x) = Inr (Num (x\<^sup>2))"
| "py_square (Str s) = Inl (TypeError ''unsupported operand type(s) for ** or pow()'')"

fun py_mult :: "pyval \<Rightarrow> pyval \<Rightarrow> py_error + pyval" where
  "py_mult (Num x) (Num y) = Inr (Num (x * y))"
| "py_mult _ _ = Inl (TypeError ''unsupported operand type(s) for *'')"

text \<open>The feature engineering of \<^verbatim>\<open>preprocess_input\<close>, in the order of the statements.\<close>

definition feature_engineering :: "row \<Rightarrow> py_error + row" where
  "feature_engineering df =
     (case getitem df ''distance_km'' of
        Inl e \<Rightarrow> Inl e
      | Inr d \<Rightarrow>
          (case py_square d of
             Inl e \<Rightarrow> Inl e
           | Inr d2 \<Rightarrow>
               (let df1 = df(''distance_squared'' \<mapsto> d2)
                in case getitem df1 ''delivery_person_rating'' of
                     Inl e \<Rightarrow> Inl e
                   | Inr r \<Rightarrow>
                       (case getitem df1 ''distance_km'' of
                          Inl e \<Rightarrow> Inl e
                        | Inr d' \<Rightarrow>
                            (case py_mult r d' of
                               Inl e \<Rightarrow> Inl e
                             | Inr p \<Rightarrow> Inr (df1(''rating_distance_interaction'' \<mapsto> p)))))))"

text \<open>The loop that gives a missing feature column the value 0, and \<^verbatim>\<open>df[feature_cols]\<close>.\<close>

fun fill_missing :: "string list \<Rightarrow> row \<Rightarrow> row" where
  "fill_missing [] df = df"
| "fill_missing (col # cols) df =
     fill_missing cols (if df col = None then df(col \<mapsto> Num 0) else df)"

fun select_columns :: "row \<Rightarrow> string list \<Rightarrow> py_error + pyval list" where
  "select_columns df [] = Inr []"
| "select_columns df (col # cols) =
     (case df col of
        None \<Rightarrow> Inl (KeyError col)
      | Some v \<Rightarrow> (case select_columns df cols of Inl e \<Rightarrow> Inl e | Inr vs \<Rightarrow> Inr (v # vs)))"

text \<open>The \<^verbatim>\<open>isinstance\<close> tests at the head of \<^verbatim>\<open>preprocess_input\<close>.\<close>

definition as_frame :: "input_data \<Rightarrow> py_error + row" where
  "as_frame input_data =
     (case input_data of
        PyDict r \<Rightarrow> Inr r
      | DataFrame r \<Rightarrow> Inr r
      | PyOther \<Rightarrow> Inl (ValueError ''Input data must be a dictionary or pandas DataFrame''))"

definition preprocess_input ::
  "predictor \<Rightarrow> input_data \<Rightarrow> string list \<times> (py_error + pyval list)" where
  "preprocess_input self input_data =
     (case model_artifacts self of
        None \<Rightarrow> ([], Inl (ValueError ''Model not loaded. Cannot preprocess input.''))
      | Some arts \<Rightarrow>
          (case as_frame input_data of
             Inl e \<Rightarrow> ([], Inl e)
           | Inr r \<Rightarrow>
               (case encode_categorical (label_encoders arts) categorical_cols r [] of
                  (out, Inl e) \<Rightarrow> (out, Inl e)
                | (out, Inr df) \<Rightarrow>
                    (case feature_engineering df of
                       Inl e \<Rightarrow> (out, Inl e)
                     | Inr df2 \<Rightarrow>
                         (out, select_columns (fill_missing (feature_columns arts) df2)
                                 (feature_columns arts))))))"

section \<open>Prediction\<close>

record prediction =
  estimated_time :: real
  confidence :: npfloat
  prediction_std :: real

text \<open>\<^verbatim>\<open>[tree.predict(X_scaled) for tree in model.estimators_]\<close>: the first raise ends it.\<close>

fun tree_predictions :: "(real list \<Rightarrow> py_error + real) list \<Rightarrow> real list \<Rightarrow> py_error + real list" where
  "tree_predictions [] X = Inr []"
| "tree_predictions (t # ts) X =
     (case t X of
        Inl e \<Rightarrow> Inl e
      | Inr y \<Rightarrow> (case tree_predictions ts X of Inl e \<Rightarrow> Inl e | Inr ys \<Rightarrow> Inr (y # ys)))"

definition prediction_failed :: "py_error \<Rightarrow> py_error" where
  "prediction_failed e = ValueError (''Prediction failed: '' @ str_exc e)"

text \<open>
  The body of the \<^verbatim>\<open>try\<close> after preprocessing. With no tree at all \<^verbatim>\<open>np.std\<close> gives a scalar
  and \<^verbatim>\<open>prediction_std[0]\<close> raises \<^verbatim>\<open>IndexError\<close>.
\<close>

definition score :: "artifacts \<Rightarrow> pyval list \<Rightarrow> py_error + prediction" where
  "score arts X =
     (case scaler_transform arts X of
        Inl e \<Rightarrow> Inl e
      | Inr X_scaled \<Rightarrow>
          (case model_predict arts X_scaled of
             Inl e \<Rightarrow> Inl e
           | Inr pred \<Rightarrow>
               (case tree_predictions (estimators arts) X_scaled of
                  Inl e \<Rightarrow> Inl e
                | Inr trees \<Rightarrow>
                    if trees = [] then Inl (IndexError ''invalid index to scalar variable.'')
                    else
                      (let std = np_std trees;
                           conf = np_maximum (6 / 10) (np_rsub 1 (np_div std pred))
                       in Inr \<lparr>estimated_time = pred, confidence = conf,
                                prediction_std = std\<rparr>))))"

definition predict :: "predictor \<Rightarrow> input_data \<Rightarrow> string list \<times> (py_error + prediction)" where
  "predict self input_data =
     (case model_artifacts self of
        None \<Rightarrow> ([], Inl (ValueError ''Model not loaded. Cannot make predictions.''))
      | Some arts \<Rightarrow>
          (case preprocess_input self input_data of
             (out, Inl e) \<Rightarrow> (out, Inl (prediction_failed e))
           | (out, Inr X) \<Rightarrow>
               (case score arts X of
                  Inl e \<Rightarrow> (out, Inl (prediction_failed e))
                | Inr res \<Rightarrow> (out, Inr res))))"

section \<open>Prediction with breakdown\<close>

record breakdown =
  preparation_time :: int
  travel_time :: int
  weather_delay :: int
  traffic_and_other :: int

record factors =
  delivery_person_rating :: pyval
  vehicle_type :: pyval
  distance_km :: pyval
  weather_condition :: pyval

record prediction_with_breakdown = prediction +
  breakdown :: breakdown
  factors :: factors

text \<open>\<^verbatim>\<open>params.get(key, default)\<close>.\<close>

definition dict_get :: "row \<Rightarrow> string \<Rightarrow> pyval \<Rightarrow> pyval" where
  "dict_get params key dflt = (case params key of None \<Rightarrow> dflt | Some v \<Rightarrow> v)"

text \<open>\<^verbatim>\<open>params\<close>: the dictionary itself, or \<^verbatim>\<open>input_data.iloc[0].to_dict()\<close>.\<close>

definition params_of :: "input_data \<Rightarrow> py_error + row" where
  "params_of input_data =
     (case input_data of
        PyDict r \<Rightarrow> Inr r
      | DataFrame r \<Rightarrow> Inr r
      | PyOther \<Rightarrow> Inl (AttributeError ''object has no attribute iloc''))"

definition base_speed_of :: "pyval \<Rightarrow> real" where
  "base_speed_of vehicle = (if vehicle = Str ''bike'' then 35 / 10 else 5)"

text \<open>
  The float arithmetic of the breakdown. Each operation gives the rounding \<open>rnd\<close> of its
  exact result, and the literals \<^verbatim>\<open>0.8\<close> and \<^verbatim>\<open>0.2\<close> are the roundings of 8/10 and 2/10
  (\<^verbatim>\<open>3.5\<close> and \<^verbatim>\<open>5.0\<close> are exact).

  \<^verbatim>\<open>(rating / 5) * 0.8 + 0.2\<close>:
\<close>

definition efficiency_value :: "(real \<Rightarrow> real) \<Rightarrow> real \<Rightarrow> real" where
  "efficiency_value rnd r = rnd (rnd (rnd (r / 5) * rnd (8 / 10)) + rnd (2 / 10))"

fun efficiency_of :: "(real \<Rightarrow> real) \<Rightarrow> pyval \<Rightarrow> py_error + real" where
  "efficiency_of rnd (Num r) = Inr (efficiency_value rnd r)"
| "efficiency_of rnd (Str s) = Inl (TypeError ''unsupported operand type(s) for /'')"

text \<open>\<^verbatim>\<open>(distance * base_speed) / efficiency\<close>: Python raises on a zero divisor.\<close>

definition travel_value :: "(real \<Rightarrow> real) \<Rightarrow> real \<Rightarrow> real \<Rightarrow> real \<Rightarrow> real" where
  "travel_value rnd d base_speed efficiency = rnd (rnd (d * base_speed) / efficiency)"

fun travel_time_of :: "(real \<Rightarrow> real) \<Rightarrow> pyval \<Rightarrow> real \<Rightarrow> real \<Rightarrow> py_error + real" where
  "travel_time_of rnd (Num d) base_speed efficiency =
     (if efficiency = 0 then Inl (ZeroDivisionError ''float division by zero'')
      else Inr (travel_value rnd d base_speed efficiency))"
| "travel_time_of rnd (Str s) base_speed efficiency =
     Inl (TypeError ''cannot multiply sequence by non-int of type float'')"

definition weather_delays :: "string \<rightharpoonup> real" where
  "weather_delays =
     map_of [(''clear'', 0), (''cloudy'', 1), (''light_rain'', 3), (''heavy_rain'', 8),
             (''storm'', 15)]"

text \<open>\<^verbatim>\<open>weather_delays.get(weather, 0)\<close>; a number is not a key of the table.\<close>

fun weather_delay_of :: "pyval \<Rightarrow> real" where
  "weather_delay_of (Str w) = (case weather_delays w of None \<Rightarrow> 0 | Some d \<Rightarrow> d)"
| "weather_delay_of (Num x) = 0"

text \<open>
  \<^verbatim>\<open>max(0, estimated_time - prep_time - travel_time - weather_delay)\<close>: three subtractions
  from the left.
\<close>

definition remaining_value ::
  "(real \<Rightarrow> real) \<Rightarrow> real \<Rightarrow> real \<Rightarrow> real \<Rightarrow> real \<Rightarrow> real" where
  "remaining_value rnd est p travel wd = max 0 (rnd (rnd (rnd (est - p) - travel) - wd))"

fun remaining_time_of ::
  "(real \<Rightarrow> real) \<Rightarrow> real \<Rightarrow> pyval \<Rightarrow> real \<Rightarrow> real \<Rightarrow> py_error + real" where
  "remaining_time_of rnd est (Num p) travel wd = Inr (remaining_value rnd est p travel wd)"
| "remaining_time_of rnd est (Str s) travel wd =
     Inl (TypeError ''unsupported operand type(s) for -'')"

fun round_val :: "pyval \<Rightarrow> py_error + int" where
  "round_val (Num x) = Inr (py_round x)"
| "round_val (Str s) = Inl (TypeError ''type str does not define __round__ method'')"

definition predict_with_breakdown ::
  "(real \<Rightarrow> real) \<Rightarrow> predictor \<Rightarrow> input_data
     \<Rightarrow> string list \<times> (py_error + prediction_with_breakdown)" where
  "predict_with_breakdown rnd self input_data =
     (case predict self input_data of
        (out, Inl e) \<Rightarrow> (out, Inl e)
      | (out, Inr base_prediction) \<Rightarrow>
          (out,
           case params_of input_data of
             Inl e \<Rightarrow> Inl e
           | Inr params \<Rightarrow>
               (let prep_time = dict_get params ''preparation_time'' (Num 15);
                    distance = dict_get params ''distance_km'' (Num 3);
                    rating = dict_get params ''delivery_person_rating'' (Num 4);
                    vehicle = dict_get params ''vehicle_type'' (Str ''bike'');
                    weather = dict_get params ''weather_condition'' (Str ''clear'');
                    base_speed = base_speed_of vehicle
                in case efficiency_of rnd rating of
                     Inl e \<Rightarrow> Inl e
                   | Inr efficiency \<Rightarrow>
                       (case travel_time_of rnd distance base_speed efficiency of
                          Inl e \<Rightarrow> Inl e
                        | Inr travel \<Rightarrow>
                            (let wd = weather_delay_of weather
                             in case remaining_time_of rnd (estimated_time base_prediction)
                                       prep_time travel wd of
                                  Inl e \<Rightarrow> Inl e
                                | Inr remaining \<Rightarrow>
                                    (case round_val prep_time of
                                       Inl e \<Rightarrow> Inl e
                                     | Inr prep_rounded \<Rightarrow>
                                         Inr (prediction.extend base_prediction
                                           \<lparr>breakdown =
                                              \<lparr>preparation_time = prep_rounded,
                                               travel_time = py_round travel,
                                               weather_delay = py_round wd,
                                               traffic_and_other = py_round remaining\<rparr>,
                                            factors =
                                              \<lparr>delivery_person_rating = rating,
                                               vehicle_type = vehicle,
                                               distance_km = distance,
                                               weather_condition = weather\<rparr>\<rparr>)))))))"

section \<open>Synthetic training data\<close>

text \<open>
  A row of the training frame. The frame is the list of its rows; a column operation is a
  map over the rows.
\<close>

record order_record =
  delivery_person_rating :: real
  distance_km :: real
  preparation_time :: real
  vehicle_type :: string
  order_type :: string
  weather_condition :: string
  time_of_day :: string
  day_of_week :: string

text \<open>
  numpy's global random generator is not part of the repository. Its state is a value of an
  arbitrary type \<open>'g\<close>, threaded through the calls; seeding and the samplers are parameters.
  A sampler draws one value and gives the next state.
\<close>

record 'g np_random =
  rng_seed :: "nat \<Rightarrow> 'g"
  rng_uniform :: "real \<Rightarrow> real \<Rightarrow> 'g \<Rightarrow> real \<times> 'g"
  rng_exponential :: "real \<Rightarrow> 'g \<Rightarrow> real \<times> 'g"
  rng_normal :: "real \<Rightarrow> real \<Rightarrow> 'g \<Rightarrow> real \<times> 'g"
  rng_choice :: "string list \<Rightarrow> real list option \<Rightarrow> 'g \<Rightarrow> string \<times> 'g"

text \<open>A sampler called with a size: that many draws, one after the other.\<close>

fun draws :: "nat \<Rightarrow> ('g \<Rightarrow> 'a \<times> 'g) \<Rightarrow> 'g \<Rightarrow> 'a list \<times> 'g" where
  "draws 0 sampler g = ([], g)"
| "draws (Suc n) sampler g =
     (let (x, g1) = sampler g; (xs, g2) = draws n sampler g1 in (x # xs, g2))"

text \<open>
  \<^verbatim>\<open>generate_sample_data\<close>. The generator state on entry is \<open>g0\<close>; the state on exit is
  returned with the frame.
\<close>

definition generate_sample_data ::
  "'g np_random \<Rightarrow> nat \<Rightarrow> 'g \<Rightarrow> order_record list \<times> 'g" where
  "generate_sample_data R n_samples g0 =
     (let g = rng_seed R 42;
          (ratings, g) = draws n_samples (rng_uniform R 1 5) g;
          (distances, g) = draws n_samples (rng_exponential R 3) g;
          (preps, g) = draws n_samples (rng_normal R 15 5) g;
          (vehicles, g) =
             draws n_samples (rng_choice R [''bike'', ''bicycle''] (Some [7 / 10, 3 / 10])) g;
          (order_types, g) =
             draws n_samples (rng_choice R [''normal'', ''delicate''] (Some [8 / 10, 2 / 10])) g;
          (weathers, g) =
             draws n_samples
               (rng_choice R [''clear'', ''cloudy'', ''light_rain'', ''heavy_rain'', ''storm'']
                  (Some [4 / 10, 3 / 10, 15 / 100, 1 / 10, 5 / 100])) g;
          (day_times, g) =
             draws n_samples
               (rng_choice R [''morning'', ''afternoon'', ''evening'', ''night''] None) g;
          (days, g) =
             draws n_samples (rng_choice R [''weekday'', ''weekend''] (Some [7 / 10, 3 / 10])) g;
          df = map (\<lambda>i. \<lparr>delivery_person_rating = ratings ! i,
                          distance_km = distances ! i,
                          preparation_time = preps ! i,
                          vehicle_type = vehicles ! i,
                          order_type = order_types ! i,
                          weather_condition = weathers ! i,
                          time_of_day = day_times ! i,
                          day_of_week = days ! i\<rparr>) [0..<n_samples];
          df = map (\<lambda>row. row\<lparr>distance_km := \<bar>distance_km row\<bar>\<rparr>) df;
          df = map (\<lambda>row. row\<lparr>preparation_time := max (preparation_time row) 5\<rparr>) df
      in (df, g))"

section \<open>Ground-truth delivery time\<close>

definition train_weather_delays :: "string \<rightharpoonup> real" where
  "train_weather_delays =
     map_of [(''clear'', 0), (''cloudy'', 1), (''light_rain'', 3), (''heavy_rain'', 8),
             (''storm'', 15)]"

definition time_delays :: "string \<rightharpoonup> real" where
  "time_delays = map_of [(''morning'', 2), (''afternoon'', 1), (''evening'', 4), (''night'', 0)]"

definition get_or :: "(string \<rightharpoonup> real) \<Rightarrow> string \<Rightarrow> real \<Rightarrow> real" where
  "get_or table key dflt = (case table key of None \<Rightarrow> dflt | Some v \<Rightarrow> v)"

definition efficiency :: "order_record \<Rightarrow> real" where
  "efficiency row = (delivery_person_rating row / 5) * (8 / 10) + 2 / 10"

text \<open>
  The body of the loop of \<^verbatim>\<open>calculate_delivery_time\<close> up to \<^verbatim>\<open>total_time\<close>, before the noise
  is drawn. The cells of a row are Python floats, so the division raises on a zero divisor.
\<close>

definition total_time :: "order_record \<Rightarrow> py_error + real" where
  "total_time row =
     (let base_speed = (if vehicle_type row = ''bike'' then 35 / 10 else 5);
          travel_time = distance_km row * base_speed
      in if efficiency row = 0 then Inl (ZeroDivisionError ''float division by zero'')
         else
           (let travel_time = travel_time / efficiency row;
                weather_delay = get_or train_weather_delays (weather_condition row) 0;
                order_delay = (if order_type row = ''delicate'' then 3 else 0);
                time_delay = get_or time_delays (time_of_day row) 0;
                weekend_factor = (if day_of_week row = ''weekend'' then 9 / 10 else 1)
            in Inr ((preparation_time row + travel_time + weather_delay + order_delay
                      + time_delay) * weekend_factor)))"

text \<open>
  \<^verbatim>\<open>calculate_delivery_time\<close>: one draw of \<^verbatim>\<open>np.random.normal(0, 2)\<close> for each row, after its
  total is computed.
\<close>

fun calculate_delivery_time ::
  "'g np_random \<Rightarrow> order_record list \<Rightarrow> 'g \<Rightarrow> (py_error + real list) \<times> 'g" where
  "calculate_delivery_time R [] g = (Inr [], g)"
| "calculate_delivery_time R (row # rows) g =
     (case total_time row of
        Inl e \<Rightarrow> (Inl e, g)
      | Inr tt \<Rightarrow>
          (let (noise, g1) = rng_normal R 0 2 g
           in case calculate_delivery_time R rows g1 of
                (Inl e, g2) \<Rightarrow> (Inl e, g2)
              | (Inr rest, g2) \<Rightarrow> (Inr (max (tt + noise) 10 # rest), g2)))"

section \<open>The forest that training writes\<close>


section \<open>Concrete artifacts and records\<close>

text \<open>
  A bundle as \<^verbatim>\<open>train_model\<close> writes it: an encoder for each categorical column, with the
  classes in sorted order, and the ten feature columns of \<^verbatim>\<open>preprocess_features\<close>. The scaler
  has mean 0 and scale 1 and rejects a string; the forest has two constant trees and
  predicts their mean.
\<close>

fun unit_scaler :: "pyval list \<Rightarrow> py_error + real list" where
  "unit_scaler [] = Inr []"
| "unit_scaler (Num x # vs) =
     (case unit_scaler vs of Inl e \<Rightarrow> Inl e | Inr xs \<Rightarrow> Inr (x # xs))"
| "unit_scaler (Str s # vs) = Inl (ValueError ''could not convert string to float'')"

definition trained_encoders :: "string \<rightharpoonup> string list" where
  "trained_encoders =
     map_of [(''vehicle_type'', [''bicycle'', ''bike'']),
             (''order_type'', [''delicate'', ''normal'']),
             (''weather_condition'',
                [''clear'', ''cloudy'', ''heavy_rain'', ''light_rain'', ''storm'']),
             (''time_of_day'', [''afternoon'', ''evening'', ''morning'', ''night'']),
             (''day_of_week'', [''weekday'', ''weekend''])]"

definition trained_columns :: "string list" where
  "trained_columns =
     [''delivery_person_rating'', ''distance_km'', ''preparation_time'',
      ''vehicle_type_encoded'', ''order_type_encoded'', ''weather_condition_encoded'',
      ''time_of_day_encoded'', ''day_of_week_encoded'',
      ''distance_squared'', ''rating_distance_interaction'']"

definition forest_artifacts :: "real \<Rightarrow> real \<Rightarrow> artifacts" where
  "forest_artifacts a b =
     \<lparr>label_encoders = trained_encoders,
      feature_columns = trained_columns,
      scaler_transform = unit_scaler,
      model_predict = (\<lambda>X. Inr ((a + b) / 2)),
      estimators = [\<lambda>X. Inr a, \<lambda>X. Inr b]\<rparr>"

definition forest_predictor :: "real \<Rightarrow> real \<Rightarrow> predictor" where
  "forest_predictor a b =
     init_predictor ''delivery_time_model.pkl'' (Loaded (forest_artifacts a b))"

text \<open>The first sample order of \<^verbatim>\<open>predict.py\<close>.\<close>

definition sample_order :: row where
  "sample_order =
     map_of [(''delivery_person_rating'', Num (42 / 10)),
             (''distance_km'', Num (35 / 10)),
             (''preparation_time'', Num 15),
             (''vehicle_type'', Str ''bike''),
             (''order_type'', Str ''normal''),
             (''weather_condition'', Str ''clear''),
             (''time_of_day'', Str ''evening''),
             (''day_of_week'', Str ''weekday'')]"

text \<open>
  The formula of the specification for the ground-truth time before the noise (its section
  4.2), written from its words, to be compared with \<open>total_time\<close>.
\<close>

definition spec_total_time :: "order_record \<Rightarrow> real" where
  "spec_total_time row =
     (let speed = (if vehicle_type row = ''bike'' then 35 / 10 else 5);
          eff = (delivery_person_rating row / 5) * (8 / 10) + 2 / 10;
          travel = distance_km row * speed / eff;
          weather_delay =
            (if weather_condition row = ''clear'' then 0
             else if weather_condition row = ''cloudy'' then 1
             else if weather_condition row = ''light_rain'' then 3
             else if weather_condition row = ''heavy_rain'' then 8
             else if weather_condition row = ''storm'' then 15 else 0);
          order_delay = (if order_type row = ''delicate'' then 3 else 0);
          time_delay =
            (if time_of_day row = ''morning'' then 2
             else if time_of_day row = ''afternoon'' then 1
             else if time_of_day row = ''evening'' then 4
             else if time_of_day row = ''night'' then 0 else 0);
          weekend_factor = (if day_of_week row = ''weekend'' then 9 / 10 else 1)
      in (preparation_time row + travel + weather_delay + order_delay + time_delay)
           * weekend_factor)"

text \<open>
  A generator for running the training functions: its state counts the draws, the samplers
  answer from their arguments (the exponential one with a negative number, the normal one
  three deviations below the mean, so that the clean-up of the generator has work to do).
\<close>

definition counter_rng :: "nat np_random" where
  "counter_rng =
     \<lparr>rng_seed = (\<lambda>s. s),
      rng_uniform = (\<lambda>lo hi g. (lo + (hi - lo) / 2, Suc g)),
      rng_exponential = (\<lambda>scale g. (- scale, Suc g)),
      rng_normal = (\<lambda>mu sigma g. (mu - 3 * sigma, Suc g)),
      rng_choice = (\<lambda>xs p g. (if even g then hd xs else last xs, Suc g))\<rparr>"

text \<open>The sample order as a row of a training frame.\<close>

definition sample_row :: order_record where
  "sample_row =
     \<lparr>delivery_person_rating = 42 / 10, distance_km = 35 / 10, preparation_time = 15,
      vehicle_type = ''bike'', order_type = ''normal'', weather_condition = ''clear'',
      time_of_day = ''evening'', day_of_week = ''weekday''\<rparr>"

text \<open>What \<^verbatim>\<open>predict_with_breakdown\<close> returns for the sample order and a forest that predicts 35.\<close>

definition sample_result :: prediction_with_breakdown where
  "sample_result =
     \<lparr>estimated_time = 35, confidence = Fin (34 / 35), prediction_std = 1,
      breakdown = \<lparr>breakdown.preparation_time = 15, travel_time = 14, weather_delay = 0,
                   traffic_and_other = 6\<rparr>,
      factors = \<lparr>factors.delivery_person_rating = Num (42 / 10),
                 vehicle_type = Str ''bike'', distance_km = Num (35 / 10),
                 weather_condition = Str ''clear''\<rparr>\<rparr>"

text \<open>
  An order whose exact travel time is 17.5 and whose exact residual, for an estimate of 35,
  is 2.5: Python computes 17.499999999999996 and 2.5000000000000036 and returns 17 and 3.
\<close>

definition tie_order :: row where
  "tie_order =
     map_of [(''delivery_person_rating'', Num (25 / 10)),
             (''distance_km'', Num 3),
             (''preparation_time'', Num 15),
             (''vehicle_type'', Str ''bike''),
             (''order_type'', Str ''normal''),
             (''weather_condition'', Str ''clear''),
             (''time_of_day'', Str ''evening''),
             (''day_of_week'', Str ''weekday'')]"

definition tie_result :: prediction_with_breakdown where
  "tie_result =
     \<lparr>estimated_time = 35, confidence = Fin (34 / 35), prediction_std = 1,
      breakdown = \<lparr>breakdown.preparation_time = 15, travel_time = 17, weather_delay = 0,
                   traffic_and_other = 3\<rparr>,
      factors = \<lparr>factors.delivery_person_rating = Num (25 / 10),
                 vehicle_type = Str ''bike'', distance_km = Num 3,
                 weather_condition = Str ''clear''\<rparr>\<rparr>"

text \<open>The sample order with a vehicle that no encoder has seen.\<close>

definition drone_order :: row where
  "drone_order = sample_order(''vehicle_type'' \<mapsto> Str ''drone'')"

section \<open>Facts about the helpers\<close>






section \<open>The predictor without a model\<close>

text \<open>
  Claim C2. When no bundle is loaded (\<^verbatim>\<open>model_artifacts\<close> is \<^verbatim>\<open>None\<close>, which is what
  \<^verbatim>\<open>load_model\<close> leaves after a missing file or any other exception of the loader),
  \<^verbatim>\<open>predict\<close> raises \<^verbatim>\<open>ValueError("Model not loaded. Cannot make predictions.")\<close> for every
  input: nothing is printed, nothing is encoded, and the error is this one and no other.
\<close>

theorem predict_not_loaded:
  "predict (self\<lparr>model_artifacts := None\<rparr>) input_data =
     ([], Inl (ValueError ''Model not loaded. Cannot make predictions.''))
   \<and> predict (load_model self FileNotFoundError) input_data =
     ([], Inl (ValueError ''Model not loaded. Cannot make predictions.''))
   \<and> predict (load_model self (LoadException m)) input_data =
     ([], Inl (ValueError ''Model not loaded. Cannot make predictions.''))
   \<and> predict (init_predictor path FileNotFoundError) input_data =
     ([], Inl (ValueError ''Model not loaded. Cannot make predictions.''))
   \<and> predict (init_predictor path (LoadException m)) input_data =
     ([], Inl (ValueError ''Model not loaded. Cannot make predictions.''))"
  by (simp add: predict_def load_model_def init_predictor_def)

section \<open>The confidence value\<close>





section \<open>Facts about the training functions\<close>

lemma efficiency_zero_iff: "efficiency row = 0 \<longleftrightarrow> delivery_person_rating row = - 5 / 4"
  by (auto simp: efficiency_def)

lemma get_or_weather:
  "get_or train_weather_delays w 0 =
     (if w = ''clear'' then 0 else if w = ''cloudy'' then 1 else if w = ''light_rain'' then 3
      else if w = ''heavy_rain'' then 8 else if w = ''storm'' then 15 else 0)"
  by (simp add: get_or_def train_weather_delays_def)

lemma get_or_time:
  "get_or time_delays t 0 =
     (if t = ''morning'' then 2 else if t = ''afternoon'' then 1 else if t = ''evening'' then 4
      else if t = ''night'' then 0 else 0)"
  by (simp add: get_or_def time_delays_def)

lemma total_time_spec:
  assumes "delivery_person_rating row \<noteq> - 5 / 4"
  shows "total_time row = Inr (spec_total_time row)"
proof -
  have "efficiency row \<noteq> 0"
    using assms by (simp add: efficiency_zero_iff)
  then show ?thesis
    unfolding total_time_def spec_total_time_def Let_def get_or_weather get_or_time
    by (simp add: efficiency_def)
qed

lemma length_draws: "length (fst (draws n f g)) = n"
proof (induction n arbitrary: g)
  case 0
  then show ?case by simp
next
  case (Suc n)
  obtain x g1 where a: "f g = (x, g1)" by (cases "f g")
  obtain xs g2 where b: "draws n f g1 = (xs, g2)" by (cases "draws n f g1")
  from Suc [of g1] b have "length xs = n" by simp
  with a b show ?case by simp
qed

lemma calculate_delivery_time_map2:
  assumes "\<forall>row \<in> set df. delivery_person_rating row \<noteq> - 5 / 4"
  shows "calculate_delivery_time R df g =
           (Inr (map2 (\<lambda>row noise. max (spec_total_time row + noise) 10) df
                   (fst (draws (length df) (rng_normal R 0 2) g))),
            snd (draws (length df) (rng_normal R 0 2) g))"
  using assms
proof (induction df arbitrary: g)
  case Nil
  then show ?case by simp
next
  case (Cons row rows)
  then show ?case
    by (simp add: total_time_spec Let_def split: prod.splits)
qed

section \<open>The ground-truth time\<close>

text \<open>
  Claim C7. For every frame of order records whose ratings are not \<open>-5/4\<close> (where the
  efficiency would be zero; the ratings of an order record lie between 1 and 5), and for
  every generator, whatever noise it draws, \<^verbatim>\<open>calculate_delivery_time\<close> returns for each row
  the total of the specification's formula (weekend factor included) plus the noise drawn
  for that row, floored at 10; every returned time is at least 10.
\<close>

theorem ground_truth_floor:
  assumes "\<forall>row \<in> set df. delivery_person_rating row \<noteq> - 5 / 4"
  shows "\<exists>ys noises.
           calculate_delivery_time R df g = (Inr ys, snd (draws (length df) (rng_normal R 0 2) g)) \<and>
           noises = fst (draws (length df) (rng_normal R 0 2) g) \<and>
           length noises = length df \<and> length ys = length df \<and>
           (\<forall>i < length df.
              ys ! i = max (spec_total_time (df ! i) + noises ! i) 10 \<and> 10 \<le> ys ! i)"
  using calculate_delivery_time_map2 [OF assms, of R g]
  by (simp add: length_draws)

theorem ground_truth_floor_witness:
  "delivery_person_rating sample_row = 42 / 10 \<and>
   calculate_delivery_time counter_rng [sample_row] 0 = (Inr [11793 / 436], 1) \<and>
   (\<exists>ys. fst (calculate_delivery_time counter_rng [sample_row] 0) = Inr ys \<and> 10 \<le> ys ! 0)"
proof -
  have h: "\<forall>row \<in> set [sample_row]. delivery_person_rating row \<noteq> - 5 / 4"
    by (simp add: sample_row_def)
  have v: "calculate_delivery_time counter_rng [sample_row] 0 = (Inr [11793 / 436], 1)"
    by (simp add: sample_row_def counter_rng_def total_time_def efficiency_def get_or_def
          train_weather_delays_def time_delays_def)
  from ground_truth_floor [OF h, of counter_rng 0] v show ?thesis
    by (auto simp: sample_row_def)
qed

section \<open>The data generator\<close>

text \<open>
  Claim C8. For every sample count \<open>n\<close>, \<^verbatim>\<open>generate_sample_data\<close> returns \<open>n\<close> records, and
  every one of them has a distance that is not negative and a preparation time of at least
  5, whatever the samplers draw.
\<close>

theorem generated_ranges:
  "length (fst (generate_sample_data R n g0)) = n \<and>
   (\<forall>row \<in> set (fst (generate_sample_data R n g0)).
      0 \<le> distance_km row \<and> 5 \<le> preparation_time row)"
  by (auto simp: generate_sample_data_def Let_def split: prod.splits)

theorem generated_ranges_witness:
  "fst (generate_sample_data counter_rng (Suc (Suc 0)) 7) =
     [\<lparr>delivery_person_rating = 3, distance_km = 3, preparation_time = 5,
       vehicle_type = ''bike'', order_type = ''normal'', weather_condition = ''clear'',
       time_of_day = ''morning'', day_of_week = ''weekday''\<rparr>,
      \<lparr>delivery_person_rating = 3, distance_km = 3, preparation_time = 5,
       vehicle_type = ''bicycle'', order_type = ''delicate'', weather_condition = ''storm'',
       time_of_day = ''night'', day_of_week = ''weekend''\<rparr>]
   \<and> 0 \<le> distance_km (hd (fst (generate_sample_data counter_rng (Suc (Suc 0)) 7)))
   \<and> 5 \<le> preparation_time (hd (fst (generate_sample_data counter_rng (Suc (Suc 0)) 7)))"
proof -
  have v: "fst (generate_sample_data counter_rng (Suc (Suc 0)) 7) =
     [\<lparr>delivery_person_rating = 3, distance_km = 3, preparation_time = 5,
       vehicle_type = ''bike'', order_type = ''normal'', weather_condition = ''clear'',
       time_of_day = ''morning'', day_of_week = ''weekday''\<rparr>,
      \<lparr>delivery_person_rating = 3, distance_km = 3, preparation_time = 5,
       vehicle_type = ''bicycle'', order_type = ''delicate'', weather_condition = ''storm'',
       time_of_day = ''night'', day_of_week = ''weekend''\<rparr>]"
    by (simp add: generate_sample_data_def counter_rng_def upt_rec)
  from generated_ranges [of counter_rng "Suc (Suc 0)" 7] v show ?thesis
    by simp
qed

text \<open>
  Claim C9. \<^verbatim>\<open>generate_sample_data\<close> seeds the generator with 42 before it draws, so two runs
  with the same sample count return the same frame and leave the same generator state,
  whatever the state of the generator was before each run.
\<close>

theorem generator_deterministic:
  "generate_sample_data R n g1 = generate_sample_data R n g2"
  by (simp add: generate_sample_data_def)

section \<open>Facts about the rounding to binary64\<close>

lemma floor_log2_scaled:
  assumes "0 < a" and "2 ^ n \<le> a * 2 ^ k" and "a * 2 ^ k < 2 ^ Suc n"
  shows "\<lfloor>log 2 a\<rfloor> = int n - int k"
proof -
  have pw: "log 2 ((2::real) ^ m) = real m" for m
    by (simp add: log_nat_power)
  have lg: "log 2 (a * 2 ^ k) = log 2 a + real k"
    using assms(1) by (simp add: log_mult log_nat_power)
  have "log 2 (2 ^ n) \<le> log 2 (a * 2 ^ k)"
    using assms(1,2) by (subst log_le_cancel_iff) simp_all
  then have lo: "real n \<le> log 2 a + real k"
    unfolding pw lg .
  have "log 2 (a * 2 ^ k) < log 2 (2 ^ Suc n)"
    using assms(1,3) by (subst log_less_cancel_iff) simp_all
  then have "log 2 a + real k < real (Suc n)"
    unfolding pw lg .
  then have hi: "log 2 a + real k < real n + 1"
    by simp
  show ?thesis
    using lo hi by (intro floor_unique) simp_all
qed

text \<open>
  How \<open>b64\<close> is computed: scale \<open>x\<close> by the power of two that brings it between \<open>2\<^sup>5\<^sup>2\<close>
  and \<open>2\<^sup>5\<^sup>3\<close>, round to an integer, and scale back.
\<close>

lemma b64_eval:
  assumes "2 ^ 52 \<le> \<bar>x\<bar> * 2 ^ k" and "\<bar>x\<bar> * 2 ^ k < 2 ^ 53"
  shows "b64 x = of_int (py_round (x * 2 ^ k)) / 2 ^ k"
proof -
  have nz: "x \<noteq> 0"
    using assms(1) by auto
  then have pos: "0 < \<bar>x\<bar>" by simp
  have "\<lfloor>log 2 \<bar>x\<bar>\<rfloor> = int 52 - int k"
    by (rule floor_log2_scaled [OF pos]) (use assms in simp_all)
  then have fl: "\<lfloor>log 2 \<bar>x\<bar>\<rfloor> = 52 - int k"
    by simp
  have u: "(2::real) powr (- real k) = 1 / 2 ^ k"
    by (simp add: powr_minus powr_realpow divide_inverse)
  show ?thesis
    using nz by (simp add: b64_def fl u Let_def)
qed

section \<open>Facts about the breakdown\<close>

lemma py_round_nearest: "\<bar>real_of_int (py_round x) - x\<bar> \<le> 1 / 2"
proof -
  have "of_int \<lfloor>x\<rfloor> \<le> x" "x < of_int \<lfloor>x\<rfloor> + 1"
    by linarith+
  then show ?thesis
    by (auto simp: py_round_def Let_def)
qed

lemma py_round_of_int: "py_round (of_int n) = n"
  by (simp add: py_round_def)

lemma py_round_nonneg: "0 \<le> x \<Longrightarrow> 0 \<le> py_round x"
  by (auto simp: py_round_def Let_def)

lemma efficiency_of_Inr:
  "efficiency_of rnd v = Inr e \<longleftrightarrow> (\<exists>r. v = Num r \<and> e = efficiency_value rnd r)"
  by (cases v) auto

lemma travel_time_of_Inr:
  "travel_time_of rnd v bs eff = Inr t \<longleftrightarrow>
     (\<exists>d. v = Num d \<and> eff \<noteq> 0 \<and> t = travel_value rnd d bs eff)"
  by (cases v) auto

lemma remaining_time_of_Inr:
  "remaining_time_of rnd est v travel wd = Inr rem \<longleftrightarrow>
     (\<exists>p. v = Num p \<and> rem = remaining_value rnd est p travel wd)"
  by (cases v) auto

lemma round_val_Inr: "round_val v = Inr n \<longleftrightarrow> (\<exists>x. v = Num x \<and> n = py_round x)"
  by (cases v) auto

text \<open>With exact operations the three values are the formulas as they are written.\<close>

lemma exact_values:
  "efficiency_value (\<lambda>x. x) r = (r / 5) * (8 / 10) + 2 / 10"
  "travel_value (\<lambda>x. x) d bs eff = (d * bs) / eff"
  "remaining_value (\<lambda>x. x) est p travel wd = max 0 (est - p - travel - wd)"
  by (simp_all add: efficiency_value_def travel_value_def remaining_value_def)

lemma remaining_value_nonneg: "0 \<le> remaining_value rnd est p travel wd"
  by (simp add: remaining_value_def)

lemma predict_with_breakdown_Inr:
  assumes "predict_with_breakdown rnd self input_data = (out, Inr res)"
  shows "\<exists>base params p d rt.
           predict self input_data = (out, Inr base) \<and>
           params_of input_data = Inr params \<and>
           dict_get params ''preparation_time'' (Num 15) = Num p \<and>
           dict_get params ''distance_km'' (Num 3) = Num d \<and>
           dict_get params ''delivery_person_rating'' (Num 4) = Num rt \<and>
           efficiency_value rnd rt \<noteq> 0 \<and>
           res = prediction.extend base
             \<lparr>breakdown =
                \<lparr>breakdown.preparation_time = py_round p,
                 travel_time =
                   py_round (travel_value rnd d
                     (base_speed_of (dict_get params ''vehicle_type'' (Str ''bike'')))
                     (efficiency_value rnd rt)),
                 weather_delay =
                   py_round (weather_delay_of
                               (dict_get params ''weather_condition'' (Str ''clear''))),
                 traffic_and_other =
                   py_round (remaining_value rnd (estimated_time base) p
                     (travel_value rnd d
                        (base_speed_of (dict_get params ''vehicle_type'' (Str ''bike'')))
                        (efficiency_value rnd rt))
                     (weather_delay_of
                        (dict_get params ''weather_condition'' (Str ''clear''))))\<rparr>,
              factors =
                \<lparr>factors.delivery_person_rating = Num rt,
                 vehicle_type = dict_get params ''vehicle_type'' (Str ''bike''),
                 distance_km = Num d,
                 weather_condition = dict_get params ''weather_condition'' (Str ''clear'')\<rparr>\<rparr>"
  using assms
  by (auto simp: predict_with_breakdown_def Let_def efficiency_of_Inr travel_time_of_Inr
        remaining_time_of_Inr round_val_Inr
      split: prod.splits sum.splits)

lemma weather_delay_table:
  "py_round (weather_delay_of w) =
     (if w = Str ''clear'' then 0 else if w = Str ''cloudy'' then 1
      else if w = Str ''light_rain'' then 3 else if w = Str ''heavy_rain'' then 8
      else if w = Str ''storm'' then 15 else 0)"
  by (cases w) (simp_all add: weather_delays_def py_round_def)

lemma sample_loaded:
  "model_artifacts (forest_predictor a b) = Some (forest_artifacts a b)"
  by (simp add: forest_predictor_def init_predictor_def load_model_def)

lemma sample_preprocess:
  "preprocess_input (forest_predictor a b) (PyDict sample_order) =
     ([], Inr [Num (42 / 10), Num (35 / 10), Num 15, Num 1, Num 1, Num 0, Num 1, Num 0,
               Num (1225 / 100), Num (147 / 10)])"
  by (simp add: preprocess_input_def sample_loaded forest_artifacts_def as_frame_def
        categorical_cols_def sample_order_def trained_encoders_def trained_columns_def
        feature_engineering_def getitem_def power2_eq_square)

lemma sample_predict:
  "predict (forest_predictor 34 36) (PyDict sample_order) =
     ([], Inr \<lparr>estimated_time = 35, confidence = Fin (34 / 35), prediction_std = 1\<rparr>)"
  by (simp add: predict_def sample_loaded sample_preprocess score_def forest_artifacts_def
        np_std_def np_mean_def np_div_def)

lemma tie_preprocess:
  "preprocess_input (forest_predictor a b) (PyDict tie_order) =
     ([], Inr [Num (25 / 10), Num 3, Num 15, Num 1, Num 1, Num 0, Num 1, Num 0,
               Num 9, Num (75 / 10)])"
  by (simp add: preprocess_input_def sample_loaded forest_artifacts_def as_frame_def
        categorical_cols_def tie_order_def trained_encoders_def trained_columns_def
        feature_engineering_def getitem_def power2_eq_square)

lemma tie_predict:
  "predict (forest_predictor 34 36) (PyDict tie_order) =
     ([], Inr \<lparr>estimated_time = 35, confidence = Fin (34 / 35), prediction_std = 1\<rparr>)"
  by (simp add: predict_def sample_loaded tie_preprocess score_def forest_artifacts_def
        np_std_def np_mean_def np_div_def)

text \<open>The roundings of the two literals.\<close>

lemma b64_literals:
  "b64 (8 / 10) = 3602879701896397 / 4503599627370496"
  "b64 (2 / 10) = 3602879701896397 / 18014398509481984"
  by (simp_all add: b64_eval [where k = 53] b64_eval [where k = 55] py_round_def)

text \<open>The breakdown of the sample order, operation by operation.\<close>

lemma sample_efficiency:
  "efficiency_value b64 (42 / 10) = 3927138875067073 / 4503599627370496"
proof -
  have a: "b64 (42 / 10 / 5) = 7566047373982433 / 9007199254740992"
    by (simp add: b64_eval [where k = 53] py_round_def)
  have b: "b64 (7566047373982433 / 9007199254740992 * (3602879701896397 / 4503599627370496)) =
           6052837899185947 / 9007199254740992"
    by (simp add: b64_eval [where k = 53] py_round_def)
  have c: "b64 (6052837899185947 / 9007199254740992 + 3602879701896397 / 18014398509481984) =
           3927138875067073 / 4503599627370496"
    by (simp add: b64_eval [where k = 53] py_round_def)
  show ?thesis
    by (simp only: efficiency_value_def a b64_literals b c)
qed

lemma sample_travel:
  "travel_value b64 (35 / 10) (35 / 10) (3927138875067073 / 4503599627370496) =
     3954206954937541 / 281474976710656"
proof -
  have a: "b64 (35 / 10 * (35 / 10)) = 49 / 4"
    by (simp add: b64_eval [where k = 49] py_round_def)
  have b: "b64 (49 / 4 / (3927138875067073 / 4503599627370496)) =
           3954206954937541 / 281474976710656"
    by (simp add: b64_eval [where k = 49] py_round_def)
  show ?thesis
    by (simp only: travel_value_def a b)
qed

lemma sample_remaining:
  "remaining_value b64 35 15 (3954206954937541 / 281474976710656) 0 =
     1675292579275579 / 281474976710656"
proof -
  have a: "b64 (35 - 15) = 20"
    by (simp add: b64_eval [where k = 48] py_round_def)
  have b: "b64 (20 - 3954206954937541 / 281474976710656) = 1675292579275579 / 281474976710656"
    by (simp add: b64_eval [where k = 50] py_round_def)
  have c: "b64 (1675292579275579 / 281474976710656 - 0) = 1675292579275579 / 281474976710656"
    by (simp add: b64_eval [where k = 50] py_round_def)
  show ?thesis
    unfolding remaining_value_def a b c by simp
qed

text \<open>The breakdown of the order with the ties.\<close>

lemma tie_efficiency:
  "efficiency_value b64 (25 / 10) = 1351079888211149 / 2251799813685248"
proof -
  have a: "b64 (25 / 10 / 5) = 1 / 2"
    by (simp add: b64_eval [where k = 53] py_round_def)
  have b: "b64 (1 / 2 * (3602879701896397 / 4503599627370496)) =
           3602879701896397 / 9007199254740992"
    by (simp add: b64_eval [where k = 54] py_round_def)
  have c: "b64 (3602879701896397 / 9007199254740992 + 3602879701896397 / 18014398509481984) =
           1351079888211149 / 2251799813685248"
    by (simp add: b64_eval [where k = 53] py_round_def)
  show ?thesis
    by (simp only: efficiency_value_def a b64_literals b c)
qed

lemma tie_travel:
  "travel_value b64 3 (35 / 10) (1351079888211149 / 2251799813685248) =
     4925812092436479 / 281474976710656"
proof -
  have a: "b64 (3 * (35 / 10)) = 21 / 2"
    by (simp add: b64_eval [where k = 49] py_round_def)
  have b: "b64 (21 / 2 / (1351079888211149 / 2251799813685248)) =
           4925812092436479 / 281474976710656"
    by (simp add: b64_eval [where k = 48] py_round_def)
  show ?thesis
    by (simp only: travel_value_def a b)
qed

lemma tie_remaining:
  "remaining_value b64 35 15 (4925812092436479 / 281474976710656) 0 =
     703687441776641 / 281474976710656"
proof -
  have a: "b64 (35 - 15) = 20"
    by (simp add: b64_eval [where k = 48] py_round_def)
  have b: "b64 (20 - 4925812092436479 / 281474976710656) = 703687441776641 / 281474976710656"
    by (simp add: b64_eval [where k = 51] py_round_def)
  have c: "b64 (703687441776641 / 281474976710656 - 0) = 703687441776641 / 281474976710656"
    by (simp add: b64_eval [where k = 51] py_round_def)
  show ?thesis
    unfolding remaining_value_def a b c by simp
qed

text \<open>
  The rating 4.2 of the sample order is not a binary64 number; a Python float holds the
  nearest one, \<open>b64 (42 / 10)\<close>. The computed efficiency is the same for both.
\<close>

lemma sample_rating_binary64:
  "b64 (42 / 10) = 4728779608739021 / 1125899906842624"
  by (simp add: b64_eval [where k = 50] py_round_def)

lemma sample_efficiency_binary64:
  "efficiency_value b64 (b64 (42 / 10)) = efficiency_value b64 (42 / 10)"
proof -
  have a: "b64 (4728779608739021 / 1125899906842624 / 5) =
           3783023686991217 / 4503599627370496"
    by (simp add: b64_eval [where k = 53] py_round_def)
  have b: "b64 (3783023686991217 / 4503599627370496 * (3602879701896397 / 4503599627370496)) =
           1513209474796487 / 2251799813685248"
    by (simp add: b64_eval [where k = 53] py_round_def)
  have c: "b64 (1513209474796487 / 2251799813685248 + 3602879701896397 / 18014398509481984) =
           3927138875067073 / 4503599627370496"
    by (simp add: b64_eval [where k = 53] py_round_def)
  have "efficiency_value b64 (b64 (42 / 10)) = 3927138875067073 / 4503599627370496"
    by (simp only: efficiency_value_def sample_rating_binary64 a b64_literals b c)
  then show ?thesis
    by (simp only: sample_efficiency)
qed

text \<open>The same values, at the arguments in lowest terms.\<close>

lemma sample_values:
  "efficiency_value b64 (21 / 5) = 3927138875067073 / 4503599627370496"
  "travel_value b64 (7 / 2) (7 / 2) (3927138875067073 / 4503599627370496) =
     3954206954937541 / 281474976710656"
  "remaining_value b64 35 15 (3954206954937541 / 281474976710656) 0 =
     1675292579275579 / 281474976710656"
  using sample_efficiency sample_travel sample_remaining by simp_all

lemma tie_values:
  "efficiency_value b64 (5 / 2) = 1351079888211149 / 2251799813685248"
  "travel_value b64 3 (7 / 2) (1351079888211149 / 2251799813685248) =
     4925812092436479 / 281474976710656"
  "remaining_value b64 35 15 (4925812092436479 / 281474976710656) 0 =
     703687441776641 / 281474976710656"
  using tie_efficiency tie_travel tie_remaining by simp_all

lemma sample_breakdown:
  "predict_with_breakdown b64 (forest_predictor 34 36) (PyDict sample_order) =
     ([], Inr sample_result)"
  unfolding predict_with_breakdown_def sample_predict
  by (simp add: params_of_def dict_get_def sample_order_def base_speed_of_def
        weather_delays_def sample_values py_round_def prediction.defs sample_result_def)

lemma tie_breakdown:
  "predict_with_breakdown b64 (forest_predictor 34 36) (PyDict tie_order) =
     ([], Inr tie_result)"
  unfolding predict_with_breakdown_def tie_predict
  by (simp add: params_of_def dict_get_def tie_order_def base_speed_of_def
        weather_delays_def tie_values py_round_def prediction.defs tie_result_def)

section \<open>The residual of the breakdown and the rounding\<close>

text \<open>
  Claim C5. When \<^verbatim>\<open>predict_with_breakdown\<close> succeeds, \<^verbatim>\<open>traffic_and_other\<close> is the rounding of
  \<open>max 0 (estimated_time - prep_time - travel_time - weather_delay)\<close> as the program
  computes it (in the arithmetic of its floats, whatever their rounding function \<open>rnd\<close> is),
  the maximum being taken before the rounding to an integer, so it is not negative; and
  each of the four numbers of the breakdown is the rounding of its computed value, an
  integer within one half of it.
\<close>

theorem breakdown_residual_rounded:
  assumes "predict_with_breakdown rnd self input_data = (out, Inr res)"
  shows "\<exists>params p d rt travel wd remaining.
           params_of input_data = Inr params \<and>
           dict_get params ''preparation_time'' (Num 15) = Num p \<and>
           dict_get params ''distance_km'' (Num 3) = Num d \<and>
           dict_get params ''delivery_person_rating'' (Num 4) = Num rt \<and>
           travel = travel_value rnd d
                      (base_speed_of (dict_get params ''vehicle_type'' (Str ''bike'')))
                      (efficiency_value rnd rt) \<and>
           wd = weather_delay_of (dict_get params ''weather_condition'' (Str ''clear'')) \<and>
           remaining = max 0 (rnd (rnd (rnd (estimated_time res - p) - travel) - wd)) \<and>
           traffic_and_other (breakdown res) = py_round remaining \<and>
           0 \<le> traffic_and_other (breakdown res) \<and>
           breakdown.preparation_time (breakdown res) = py_round p \<and>
           breakdown.travel_time (breakdown res) = py_round travel \<and>
           breakdown.weather_delay (breakdown res) = py_round wd \<and>
           \<bar>real_of_int (traffic_and_other (breakdown res)) - remaining\<bar> \<le> 1 / 2 \<and>
           \<bar>real_of_int (breakdown.preparation_time (breakdown res)) - p\<bar> \<le> 1 / 2 \<and>
           \<bar>real_of_int (breakdown.travel_time (breakdown res)) - travel\<bar> \<le> 1 / 2 \<and>
           \<bar>real_of_int (breakdown.weather_delay (breakdown res)) - wd\<bar> \<le> 1 / 2"
proof -
  from predict_with_breakdown_Inr [OF assms]
  obtain base params p d rt where
    params: "params_of input_data = Inr params"
    and p: "dict_get params ''preparation_time'' (Num 15) = Num p"
    and d: "dict_get params ''distance_km'' (Num 3) = Num d"
    and rt: "dict_get params ''delivery_person_rating'' (Num 4) = Num rt"
    and res: "res = prediction.extend base
             \<lparr>breakdown =
                \<lparr>breakdown.preparation_time = py_round p,
                 travel_time =
                   py_round (travel_value rnd d
                     (base_speed_of (dict_get params ''vehicle_type'' (Str ''bike'')))
                     (efficiency_value rnd rt)),
                 weather_delay =
                   py_round (weather_delay_of
                               (dict_get params ''weather_condition'' (Str ''clear''))),
                 traffic_and_other =
                   py_round (remaining_value rnd (estimated_time base) p
                     (travel_value rnd d
                        (base_speed_of (dict_get params ''vehicle_type'' (Str ''bike'')))
                        (efficiency_value rnd rt))
                     (weather_delay_of
                        (dict_get params ''weather_condition'' (Str ''clear''))))\<rparr>,
              factors =
                \<lparr>factors.delivery_person_rating = Num rt,
                 vehicle_type = dict_get params ''vehicle_type'' (Str ''bike''),
                 distance_km = Num d,
                 weather_condition = dict_get params ''weather_condition'' (Str ''clear'')\<rparr>\<rparr>"
    by blast
  define travel where
    "travel = travel_value rnd d
                (base_speed_of (dict_get params ''vehicle_type'' (Str ''bike'')))
                (efficiency_value rnd rt)"
  define wd where "wd = weather_delay_of (dict_get params ''weather_condition'' (Str ''clear''))"
  define remaining where
    "remaining = max 0 (rnd (rnd (rnd (estimated_time res - p) - travel) - wd))"
  have est: "estimated_time res = estimated_time base"
    by (simp add: res prediction.defs)
  have t: "traffic_and_other (breakdown res) = py_round remaining"
    by (simp add: res prediction.defs remaining_def remaining_value_def travel_def wd_def)
  have pp: "breakdown.preparation_time (breakdown res) = py_round p"
    by (simp add: res prediction.defs)
  have tt: "breakdown.travel_time (breakdown res) = py_round travel"
    by (simp add: res prediction.defs travel_def)
  have ww: "breakdown.weather_delay (breakdown res) = py_round wd"
    by (simp add: res prediction.defs wd_def)
  have nonneg: "0 \<le> traffic_and_other (breakdown res)"
    unfolding t by (rule py_round_nonneg) (simp add: remaining_def)
  have n1: "\<bar>real_of_int (traffic_and_other (breakdown res)) - remaining\<bar> \<le> 1 / 2"
    unfolding t by (rule py_round_nearest)
  have n2: "\<bar>real_of_int (breakdown.preparation_time (breakdown res)) - p\<bar> \<le> 1 / 2"
    unfolding pp by (rule py_round_nearest)
  have n3: "\<bar>real_of_int (breakdown.travel_time (breakdown res)) - travel\<bar> \<le> 1 / 2"
    unfolding tt by (rule py_round_nearest)
  have n4: "\<bar>real_of_int (breakdown.weather_delay (breakdown res)) - wd\<bar> \<le> 1 / 2"
    unfolding ww by (rule py_round_nearest)
  from params p d rt travel_def wd_def remaining_def t nonneg pp tt ww n1 n2 n3 n4
  show ?thesis
    by blast
qed

text \<open>
  The order with the ties under binary64: the travel time is computed as
  17.499999999999996 and the residual as 2.5000000000000036, and the breakdown holds 17
  and 3.
\<close>

theorem breakdown_residual_rounded_witness:
  "predict_with_breakdown b64 (forest_predictor 34 36) (PyDict tie_order) = ([], Inr tie_result)
   \<and> breakdown.travel_time (breakdown tie_result) = 17
   \<and> traffic_and_other (breakdown tie_result) = 3
   \<and> (\<exists>remaining. traffic_and_other (breakdown tie_result) = py_round remaining
         \<and> \<bar>real_of_int (traffic_and_other (breakdown tie_result)) - remaining\<bar> \<le> 1 / 2)"
proof -
  from breakdown_residual_rounded [OF tie_breakdown]
  have "\<exists>remaining. traffic_and_other (breakdown tie_result) = py_round remaining
         \<and> \<bar>real_of_int (traffic_and_other (breakdown tie_result)) - remaining\<bar> \<le> 1 / 2"
    by blast
  then show ?thesis
    using tie_breakdown by (simp add: tie_result_def)
qed

section \<open>Travel time and weather delay of the breakdown\<close>

text \<open>
  Claim C6, as amended. When \<^verbatim>\<open>predict_with_breakdown\<close> succeeds, the travel time of the
  breakdown is the integer nearest to (within one half of, a tie going to the even one) the
  quotient \<open>distance * base_speed / efficiency\<close> as the program computes it in its floats,
  with base speed 3.5 for the vehicle \<^verbatim>\<open>bike\<close> and 5.0 otherwise and efficiency
  \<open>(rating / 5) * 0.8 + 0.2\<close>, and the weather delay is the entry of the table (0 for a
  weather that is not in it): both are functions of the input alone. An input with
  preparation time 15 gives the preparation time 15, and the weather \<^verbatim>\<open>clear\<close> the delay 0.
\<close>

theorem breakdown_from_inputs:
  assumes "predict_with_breakdown rnd self input_data = (out, Inr res)"
  shows "\<exists>params d rt quotient.
           params_of input_data = Inr params \<and>
           dict_get params ''distance_km'' (Num 3) = Num d \<and>
           dict_get params ''delivery_person_rating'' (Num 4) = Num rt \<and>
           quotient =
             rnd (rnd (d * (if dict_get params ''vehicle_type'' (Str ''bike'') = Str ''bike''
                            then 35 / 10 else 5))
                  / rnd (rnd (rnd (rt / 5) * rnd (8 / 10)) + rnd (2 / 10))) \<and>
           breakdown.travel_time (breakdown res) = py_round quotient \<and>
           \<bar>real_of_int (breakdown.travel_time (breakdown res)) - quotient\<bar> \<le> 1 / 2 \<and>
           breakdown.weather_delay (breakdown res) =
             (let w = dict_get params ''weather_condition'' (Str ''clear'')
              in if w = Str ''clear'' then 0 else if w = Str ''cloudy'' then 1
                 else if w = Str ''light_rain'' then 3 else if w = Str ''heavy_rain'' then 8
                 else if w = Str ''storm'' then 15 else 0) \<and>
           (params ''preparation_time'' = Some (Num 15) \<longrightarrow>
              breakdown.preparation_time (breakdown res) = 15) \<and>
           (params ''weather_condition'' = Some (Str ''clear'') \<longrightarrow>
              breakdown.weather_delay (breakdown res) = 0)"
proof -
  from predict_with_breakdown_Inr [OF assms]
  obtain base params p d rt where
    params: "params_of input_data = Inr params"
    and p: "dict_get params ''preparation_time'' (Num 15) = Num p"
    and d: "dict_get params ''distance_km'' (Num 3) = Num d"
    and rt: "dict_get params ''delivery_person_rating'' (Num 4) = Num rt"
    and res: "res = prediction.extend base
             \<lparr>breakdown =
                \<lparr>breakdown.preparation_time = py_round p,
                 travel_time =
                   py_round (travel_value rnd d
                     (base_speed_of (dict_get params ''vehicle_type'' (Str ''bike'')))
                     (efficiency_value rnd rt)),
                 weather_delay =
                   py_round (weather_delay_of
                               (dict_get params ''weather_condition'' (Str ''clear''))),
                 traffic_and_other =
                   py_round (remaining_value rnd (estimated_time base) p
                     (travel_value rnd d
                        (base_speed_of (dict_get params ''vehicle_type'' (Str ''bike'')))
                        (efficiency_value rnd rt))
                     (weather_delay_of
                        (dict_get params ''weather_condition'' (Str ''clear''))))\<rparr>,
              factors =
                \<lparr>factors.delivery_person_rating = Num rt,
                 vehicle_type = dict_get params ''vehicle_type'' (Str ''bike''),
                 distance_km = Num d,
                 weather_condition = dict_get params ''weather_condition'' (Str ''clear'')\<rparr>\<rparr>"
    by blast
  define quotient where
    "quotient =
       rnd (rnd (d * (if dict_get params ''vehicle_type'' (Str ''bike'') = Str ''bike''
                      then 35 / 10 else 5))
            / rnd (rnd (rnd (rt / 5) * rnd (8 / 10)) + rnd (2 / 10)))"
  have tt: "breakdown.travel_time (breakdown res) = py_round quotient"
    by (simp add: res prediction.defs base_speed_of_def travel_value_def efficiency_value_def
          quotient_def)
  have near: "\<bar>real_of_int (breakdown.travel_time (breakdown res)) - quotient\<bar> \<le> 1 / 2"
    unfolding tt by (rule py_round_nearest)
  have ww: "breakdown.weather_delay (breakdown res) =
             (let w = dict_get params ''weather_condition'' (Str ''clear'')
              in if w = Str ''clear'' then 0 else if w = Str ''cloudy'' then 1
                 else if w = Str ''light_rain'' then 3 else if w = Str ''heavy_rain'' then 8
                 else if w = Str ''storm'' then 15 else 0)"
    by (simp add: res prediction.defs weather_delay_table Let_def)
  have pp: "params ''preparation_time'' = Some (Num 15) \<longrightarrow>
              breakdown.preparation_time (breakdown res) = 15"
  proof
    assume "params ''preparation_time'' = Some (Num 15)"
    with p have "p = 15" by (simp add: dict_get_def)
    then show "breakdown.preparation_time (breakdown res) = 15"
      by (simp add: res prediction.defs py_round_def)
  qed
  have cc: "params ''weather_condition'' = Some (Str ''clear'') \<longrightarrow>
              breakdown.weather_delay (breakdown res) = 0"
    using ww by (simp add: dict_get_def)
  from params d rt quotient_def tt near ww pp cc show ?thesis
    by blast
qed

theorem breakdown_from_inputs_witness:
  "predict_with_breakdown b64 (forest_predictor 34 36) (PyDict sample_order) =
     ([], Inr sample_result)
   \<and> sample_order ''preparation_time'' = Some (Num 15)
   \<and> sample_order ''weather_condition'' = Some (Str ''clear'')
   \<and> breakdown.preparation_time (breakdown sample_result) = 15
   \<and> breakdown.weather_delay (breakdown sample_result) = 0
   \<and> breakdown.travel_time (breakdown sample_result) =
       py_round (3954206954937541 / 281474976710656)"
proof -
  have prep: "sample_order ''preparation_time'' = Some (Num 15)"
    and weather: "sample_order ''weather_condition'' = Some (Str ''clear'')"
    by (simp_all add: sample_order_def)
  from breakdown_from_inputs [OF sample_breakdown] prep weather
  have "breakdown.preparation_time (breakdown sample_result) = 15
        \<and> breakdown.weather_delay (breakdown sample_result) = 0"
    by (auto simp: params_of_def)
  then show ?thesis
    using sample_breakdown prep weather by (simp add: sample_result_def py_round_def)
qed

text \<open>
  The claim as it is written gives the breakdown the quotient itself. For the sample order
  the quotient is \<open>12.25 / 0.872\<close>, a little above 14, exactly and as binary64 computes it
  (14.048165137614678), and the breakdown holds 14.
\<close>

theorem travel_time_is_rounded:
  "predict_with_breakdown b64 (forest_predictor 34 36) (PyDict sample_order) =
     ([], Inr sample_result)
   \<and> breakdown.travel_time (breakdown sample_result) = 14
   \<and> travel_value b64 (35 / 10) (35 / 10) (efficiency_value b64 (42 / 10)) =
       3954206954937541 / 281474976710656
   \<and> real_of_int (breakdown.travel_time (breakdown sample_result))
       \<noteq> 3954206954937541 / 281474976710656
   \<and> real_of_int (breakdown.travel_time (breakdown sample_result))
       \<noteq> 35 / 10 * (35 / 10) / ((42 / 10 / 5) * (8 / 10) + 2 / 10)"
  using sample_breakdown by (simp add: sample_result_def sample_values)

section \<open>Facts about the encoding\<close>

lemma transform_error: "transform classes v = Inl e \<Longrightarrow> \<exists>m. e = ValueError m"
  by (cases v) (auto split: if_splits)

lemma transform_unseen:
  "v \<notin> Str ` set classes \<Longrightarrow>
     transform classes v = Inl (ValueError ''y contains previously unseen labels'')"
  by (cases v) auto

lemma encode_categorical_log:
  "encode_categorical encs cols df out = (out', res) \<Longrightarrow> set out \<subseteq> set out'"
proof (induction cols arbitrary: df out)
  case Nil
  then show ?case by simp
next
  case (Cons c cols)
  show ?case
  proof (cases "df c")
    case None
    with Cons show ?thesis by simp
  next
    case (Some v)
    show ?thesis
    proof (cases "encs c")
      case None
      with Some Cons.prems show ?thesis by simp
    next
      case (Some classes)
      note enc = this
      show ?thesis
      proof (cases "transform classes v")
        case (Inr code)
        with Cons.prems \<open>df c = Some v\<close> enc
        have "encode_categorical encs cols (df(c @ ''_encoded'' \<mapsto> code)) out = (out', res)"
          by simp
        then show ?thesis by (rule Cons.IH)
      next
        case (Inl e)
        then obtain m where "e = ValueError m"
          using transform_error by blast
        with Inl Cons.prems \<open>df c = Some v\<close> enc
        have "encode_categorical encs cols (df(c @ ''_encoded'' \<mapsto> Num 0))
                (out @ [unseen_warning c]) = (out', res)"
          by simp
        then have "set (out @ [unseen_warning c]) \<subseteq> set out'" by (rule Cons.IH)
        then show ?thesis by simp
      qed
    qed
  qed
qed

lemma encode_categorical_other_key:
  "encode_categorical encs cols df out = (out', Inr df') \<Longrightarrow>
     \<forall>c \<in> set cols. k \<noteq> c @ ''_encoded'' \<Longrightarrow> df' k = df k"
proof (induction cols arbitrary: df out)
  case Nil
  then show ?case by simp
next
  case (Cons c cols)
  from Cons.prems(2) have k: "k \<noteq> c @ ''_encoded''" and rest: "\<forall>c \<in> set cols. k \<noteq> c @ ''_encoded''"
    by simp_all
  show ?case
  proof (cases "df c")
    case None
    with Cons.prems(1) have "encode_categorical encs cols df out = (out', Inr df')" by simp
    from Cons.IH [OF this rest] show ?thesis .
  next
    case (Some v)
    show ?thesis
    proof (cases "encs c")
      case None
      with Some Cons.prems(1) show ?thesis by simp
    next
      case (Some classes)
      note enc = this
      show ?thesis
      proof (cases "transform classes v")
        case (Inr code)
        with Cons.prems(1) \<open>df c = Some v\<close> enc
        have "encode_categorical encs cols (df(c @ ''_encoded'' \<mapsto> code)) out = (out', Inr df')"
          by simp
        from Cons.IH [OF this rest] k show ?thesis by simp
      next
        case (Inl e)
        then obtain m where "e = ValueError m"
          using transform_error by blast
        with Inl Cons.prems(1) \<open>df c = Some v\<close> enc
        have "encode_categorical encs cols (df(c @ ''_encoded'' \<mapsto> Num 0))
                (out @ [unseen_warning c]) = (out', Inr df')"
          by simp
        from Cons.IH [OF this rest] k show ?thesis by simp
      qed
    qed
  qed
qed

lemma encode_categorical_total:
  "\<forall>c \<in> set cols. encs c \<noteq> None \<Longrightarrow>
     \<exists>out' df'. encode_categorical encs cols df out = (out', Inr df')"
proof (induction cols arbitrary: df out)
  case Nil
  then show ?case by simp
next
  case (Cons c cols)
  then obtain classes where enc: "encs c = Some classes" by auto
  from Cons.prems have rest: "\<forall>c \<in> set cols. encs c \<noteq> None" by simp
  show ?case
  proof (cases "df c")
    case None
    then have eq: "encode_categorical encs (c # cols) df out = encode_categorical encs cols df out"
      by simp
    show ?thesis unfolding eq by (rule Cons.IH [OF rest])
  next
    case (Some v)
    show ?thesis
    proof (cases "transform classes v")
      case (Inr code)
      with Some enc
      have eq: "encode_categorical encs (c # cols) df out =
                  encode_categorical encs cols (df(c @ ''_encoded'' \<mapsto> code)) out"
        by simp
      show ?thesis unfolding eq by (rule Cons.IH [OF rest])
    next
      case (Inl e)
      then obtain m where "e = ValueError m"
        using transform_error by blast
      with Inl Some enc
      have eq: "encode_categorical encs (c # cols) df out =
                  encode_categorical encs cols (df(c @ ''_encoded'' \<mapsto> Num 0))
                    (out @ [unseen_warning c])"
        by simp
      show ?thesis unfolding eq by (rule Cons.IH [OF rest])
    qed
  qed
qed

lemma encode_categorical_unseen:
  assumes "encode_categorical encs cols df out = (out', Inr df')"
    and "col \<in> set cols"
    and "df col = Some v"
    and "encs col = Some classes"
    and "v \<notin> Str ` set classes"
    and "\<forall>c \<in> set cols. col \<noteq> c @ ''_encoded''"
  shows "df' (col @ ''_encoded'') = Some (Num 0) \<and> unseen_warning col \<in> set out'"
  using assms
proof (induction cols arbitrary: df out)
  case Nil
  then show ?case by simp
next
  case (Cons c cols)
  from Cons.prems(6) have c_key: "col \<noteq> c @ ''_encoded''"
    and rest: "\<forall>c \<in> set cols. col \<noteq> c @ ''_encoded''"
    by simp_all
  show ?case
  proof (cases "c = col")
    case True
    from Cons.prems(1,3,4) True transform_unseen [OF Cons.prems(5)]
    have run: "encode_categorical encs cols (df(col @ ''_encoded'' \<mapsto> Num 0))
                 (out @ [unseen_warning col]) = (out', Inr df')"
      by simp
    show ?thesis
    proof (cases "col \<in> set cols")
      case True
      have "(df(col @ ''_encoded'' \<mapsto> Num 0)) col = Some v"
        using Cons.prems(3) by simp
      from Cons.IH [OF run True this Cons.prems(4,5) rest] show ?thesis .
    next
      case False
      then have "\<forall>c \<in> set cols. col @ ''_encoded'' \<noteq> c @ ''_encoded''"
        by auto
      from encode_categorical_other_key [OF run this]
      have "df' (col @ ''_encoded'') = Some (Num 0)" by simp
      moreover from encode_categorical_log [OF run]
      have "unseen_warning col \<in> set out'" by auto
      ultimately show ?thesis by simp
    qed
  next
    case False
    with Cons.prems(2) have mem: "col \<in> set cols" by simp
    show ?thesis
    proof (cases "df c")
      case None
      with Cons.prems(1) have run: "encode_categorical encs cols df out = (out', Inr df')"
        by simp
      from Cons.IH [OF run mem Cons.prems(3,4,5) rest] show ?thesis .
    next
      case (Some w)
      show ?thesis
      proof (cases "encs c")
        case None
        with Some Cons.prems(1) show ?thesis by simp
      next
        case (Some classes')
        note enc = this
        show ?thesis
        proof (cases "transform classes' w")
          case (Inr code)
          with Cons.prems(1) \<open>df c = Some w\<close> enc
          have run: "encode_categorical encs cols (df(c @ ''_encoded'' \<mapsto> code)) out =
                       (out', Inr df')"
            by simp
          have "(df(c @ ''_encoded'' \<mapsto> code)) col = Some v"
            using Cons.prems(3) c_key by simp
          from Cons.IH [OF run mem this Cons.prems(4,5) rest] show ?thesis .
        next
          case (Inl e)
          then obtain m where "e = ValueError m"
            using transform_error by blast
          with Inl Cons.prems(1) \<open>df c = Some w\<close> enc
          have run: "encode_categorical encs cols (df(c @ ''_encoded'' \<mapsto> Num 0))
                       (out @ [unseen_warning c]) = (out', Inr df')"
            by simp
          have "(df(c @ ''_encoded'' \<mapsto> Num 0)) col = Some v"
            using Cons.prems(3) c_key by simp
          from Cons.IH [OF run mem this Cons.prems(4,5) rest] show ?thesis .
        qed
      qed
    qed
  qed
qed

lemma fill_missing_apply:
  "fill_missing cols df k =
     (case df k of Some v \<Rightarrow> Some v | None \<Rightarrow> if k \<in> set cols then Some (Num 0) else None)"
  by (induction cols arbitrary: df) (auto split: option.splits)

lemma select_columns_present:
  "\<forall>c \<in> set cols. df c \<noteq> None \<Longrightarrow>
     select_columns df cols = Inr (map (\<lambda>c. case df c of Some v \<Rightarrow> v | None \<Rightarrow> Num 0) cols)"
  by (induction cols) auto

lemma select_columns_filled:
  "select_columns (fill_missing cols df) cols =
     Inr (map (\<lambda>c. case df c of Some v \<Rightarrow> v | None \<Rightarrow> Num 0) cols)"
proof -
  have "\<forall>c \<in> set cols. fill_missing cols df c \<noteq> None"
    by (simp add: fill_missing_apply split: option.splits)
  from select_columns_present [OF this]
  have "select_columns (fill_missing cols df) cols =
          Inr (map (\<lambda>c. case fill_missing cols df c of Some v \<Rightarrow> v | None \<Rightarrow> Num 0) cols)" .
  also have "map (\<lambda>c. case fill_missing cols df c of Some v \<Rightarrow> v | None \<Rightarrow> Num 0) cols =
             map (\<lambda>c. case df c of Some v \<Rightarrow> v | None \<Rightarrow> Num 0) cols"
    by (rule map_cong) (simp_all add: fill_missing_apply split: option.splits)
  finally show ?thesis .
qed

lemma feature_engineering_numbers:
  assumes "df ''distance_km'' = Some (Num d)" and "df ''delivery_person_rating'' = Some (Num rt)"
  shows "feature_engineering df =
           Inr (df(''distance_squared'' \<mapsto> Num (d\<^sup>2),
                   ''rating_distance_interaction'' \<mapsto> Num (rt * d)))"
  using assms by (simp add: feature_engineering_def getitem_def)

lemma feature_engineering_missing_distance:
  "df ''distance_km'' = None \<Longrightarrow> feature_engineering df = Inl (KeyError ''distance_km'')"
  by (simp add: feature_engineering_def getitem_def)

lemma categorical_not_encoded:
  "col \<in> set categorical_cols \<Longrightarrow> \<forall>c \<in> set categorical_cols. col \<noteq> c @ ''_encoded''"
  by (auto simp: categorical_cols_def)

lemma numeric_not_encoded:
  "\<forall>c \<in> set categorical_cols. ''distance_km'' \<noteq> c @ ''_encoded''"
  "\<forall>c \<in> set categorical_cols. ''delivery_person_rating'' \<noteq> c @ ''_encoded''"
  by (simp_all add: categorical_cols_def)

lemma encoded_not_engineered:
  "col \<in> set categorical_cols \<Longrightarrow>
     col @ ''_encoded'' \<noteq> ''distance_squared'' \<and>
     col @ ''_encoded'' \<noteq> ''rating_distance_interaction''"
  by (auto simp: categorical_cols_def)

section \<open>A category the encoder has not seen\<close>

text \<open>
  Claim C4. Let the bundle hold an encoder for each of the five categorical columns, as
  \<^verbatim>\<open>train_model\<close> writes it, and let the input carry numbers for \<^verbatim>\<open>distance_km\<close> and
  \<^verbatim>\<open>delivery_person_rating\<close>. If the cell of a categorical column is a string that is not
  among the classes of its encoder, \<^verbatim>\<open>preprocess_input\<close> does not raise: the warning for that column is
  printed, the encoded column holds 0 wherever it occurs among the features, and \<^verbatim>\<open>predict\<close>
  goes on to scale and score these features.
\<close>

theorem unseen_category_default:
  assumes loaded: "model_artifacts self = Some arts"
    and encoders: "\<forall>c \<in> set categorical_cols. label_encoders arts c \<noteq> None"
    and frame: "as_frame input_data = Inr r"
    and col: "col \<in> set categorical_cols"
    and cell: "r col = Some (Str s)"
    and classes: "label_encoders arts col = Some classes"
    and unseen: "s \<notin> set classes"
    and distance: "r ''distance_km'' = Some (Num d)"
    and rating: "r ''delivery_person_rating'' = Some (Num rt)"
  shows "\<exists>out X.
           preprocess_input self input_data = (out, Inr X) \<and>
           unseen_warning col \<in> set out \<and>
           length X = length (feature_columns arts) \<and>
           (\<forall>i < length X. feature_columns arts ! i = col @ ''_encoded'' \<longrightarrow> X ! i = Num 0) \<and>
           predict self input_data =
             (out, case score arts X of Inl e \<Rightarrow> Inl (prediction_failed e) | Inr res \<Rightarrow> Inr res)"
proof -
  from encode_categorical_total [OF encoders, of r "[]"]
  obtain out df where enc:
    "encode_categorical (label_encoders arts) categorical_cols r [] = (out, Inr df)"
    by blast
  from unseen have "Str s \<notin> Str ` set classes"
    by auto
  from encode_categorical_unseen
         [OF enc col cell classes this categorical_not_encoded [OF col]]
  have zero: "df (col @ ''_encoded'') = Some (Num 0)" and warned: "unseen_warning col \<in> set out"
    by simp_all
  have d: "df ''distance_km'' = Some (Num d)"
    using encode_categorical_other_key [OF enc numeric_not_encoded(1)] distance by simp
  have rt: "df ''delivery_person_rating'' = Some (Num rt)"
    using encode_categorical_other_key [OF enc numeric_not_encoded(2)] rating by simp
  define df2 where
    "df2 = df(''distance_squared'' \<mapsto> Num (d\<^sup>2), ''rating_distance_interaction'' \<mapsto> Num (rt * d))"
  have fe: "feature_engineering df = Inr df2"
    unfolding df2_def by (rule feature_engineering_numbers [OF d rt])
  have zero2: "df2 (col @ ''_encoded'') = Some (Num 0)"
    using zero encoded_not_engineered [OF col] by (simp add: df2_def)
  define X where
    "X = map (\<lambda>c. case df2 c of Some v \<Rightarrow> v | None \<Rightarrow> Num 0) (feature_columns arts)"
  have pre: "preprocess_input self input_data = (out, Inr X)"
    by (simp add: preprocess_input_def loaded frame enc fe select_columns_filled X_def)
  have len: "length X = length (feature_columns arts)"
    by (simp add: X_def)
  have at: "\<forall>i < length X. feature_columns arts ! i = col @ ''_encoded'' \<longrightarrow> X ! i = Num 0"
    using zero2 by (simp add: X_def)
  have run: "predict self input_data =
      (out, case score arts X of Inl e \<Rightarrow> Inl (prediction_failed e) | Inr res \<Rightarrow> Inr res)"
    by (simp add: predict_def loaded pre split: sum.splits)
  from pre warned len at run show ?thesis
    by blast
qed

lemma drone_preprocess:
  "preprocess_input (forest_predictor a b) (PyDict drone_order) =
     ([unseen_warning ''vehicle_type''],
      Inr [Num (42 / 10), Num (35 / 10), Num 15, Num 0, Num 1, Num 0, Num 1, Num 0,
           Num (1225 / 100), Num (147 / 10)])"
  by (simp add: preprocess_input_def sample_loaded forest_artifacts_def as_frame_def
        categorical_cols_def drone_order_def sample_order_def trained_encoders_def
        trained_columns_def feature_engineering_def getitem_def power2_eq_square)

lemma drone_predict:
  "predict (forest_predictor 34 36) (PyDict drone_order) =
     ([unseen_warning ''vehicle_type''],
      Inr \<lparr>estimated_time = 35, confidence = Fin (34 / 35), prediction_std = 1\<rparr>)"
  by (simp add: predict_def sample_loaded drone_preprocess score_def forest_artifacts_def
        np_std_def np_mean_def np_div_def)

theorem unseen_category_default_witness:
  "preprocess_input (forest_predictor 34 36) (PyDict drone_order) =
     ([unseen_warning ''vehicle_type''],
      Inr [Num (42 / 10), Num (35 / 10), Num 15, Num 0, Num 1, Num 0, Num 1, Num 0,
           Num (1225 / 100), Num (147 / 10)])
   \<and> predict (forest_predictor 34 36) (PyDict drone_order) =
     ([unseen_warning ''vehicle_type''],
      Inr \<lparr>estimated_time = 35, confidence = Fin (34 / 35), prediction_std = 1\<rparr>)
   \<and> (\<exists>out X. preprocess_input (forest_predictor 34 36) (PyDict drone_order) = (out, Inr X)
         \<and> unseen_warning ''vehicle_type'' \<in> set out
         \<and> length X = length (feature_columns (forest_artifacts 34 36)))"
proof -
  have encoders: "\<forall>c \<in> set categorical_cols. label_encoders (forest_artifacts 34 36) c \<noteq> None"
    by (simp add: categorical_cols_def forest_artifacts_def trained_encoders_def)
  have frame: "as_frame (PyDict drone_order) = Inr drone_order"
    by (simp add: as_frame_def)
  have col: "''vehicle_type'' \<in> set categorical_cols"
    by (simp add: categorical_cols_def)
  have cell: "drone_order ''vehicle_type'' = Some (Str ''drone'')"
    by (simp add: drone_order_def)
  have classes: "label_encoders (forest_artifacts 34 36) ''vehicle_type'' = Some [''bicycle'', ''bike'']"
    by (simp add: forest_artifacts_def trained_encoders_def)
  have unseen: "''drone'' \<notin> set [''bicycle'', ''bike'']"
    by simp
  have distance: "drone_order ''distance_km'' = Some (Num (35 / 10))"
    and rating: "drone_order ''delivery_person_rating'' = Some (Num (42 / 10))"
    by (simp_all add: drone_order_def sample_order_def)
  from unseen_category_default
         [OF sample_loaded encoders frame col cell classes unseen distance rating]
  have "\<exists>out X. preprocess_input (forest_predictor 34 36) (PyDict drone_order) = (out, Inr X)
         \<and> unseen_warning ''vehicle_type'' \<in> set out
         \<and> length X = length (feature_columns (forest_artifacts 34 36))"
    by blast
  with drone_preprocess [of 34 36] drone_predict show ?thesis
    by blast
qed

section \<open>Columns that are absent from the input\<close>

lemmas eval_defs =
  preprocess_input_def sample_loaded forest_artifacts_def as_frame_def categorical_cols_def
  sample_order_def trained_encoders_def trained_columns_def feature_engineering_def getitem_def

lemma without_distance_preprocess:
  "preprocess_input (forest_predictor a b) (PyDict (sample_order(''distance_km'' := None))) =
     ([], Inl (KeyError ''distance_km''))"
  by (simp add: eval_defs)

lemma without_rating_preprocess:
  "preprocess_input (forest_predictor a b)
     (PyDict (sample_order(''delivery_person_rating'' := None))) =
     ([], Inl (KeyError ''delivery_person_rating''))"
  by (simp add: eval_defs)

lemma without_distance_predict:
  "predict (forest_predictor a b) (PyDict (sample_order(''distance_km'' := None))) =
     ([], Inl (prediction_failed (KeyError ''distance_km'')))"
  unfolding predict_def without_distance_preprocess by (simp add: sample_loaded)

lemma without_rating_predict:
  "predict (forest_predictor a b) (PyDict (sample_order(''delivery_person_rating'' := None))) =
     ([], Inl (prediction_failed (KeyError ''delivery_person_rating'')))"
  unfolding predict_def without_rating_preprocess by (simp add: sample_loaded)

lemma without_optional_preprocess:
  "preprocess_input (forest_predictor a b)
     (PyDict (sample_order(''preparation_time'' := None, ''vehicle_type'' := None,
                           ''weather_condition'' := None))) =
     ([], Inr [Num (42 / 10), Num (35 / 10), Num 0, Num 0, Num 1, Num 0, Num 1, Num 0,
               Num (1225 / 100), Num (147 / 10)])"
  by (simp add: eval_defs power2_eq_square)

lemma without_optional_predict:
  "predict (forest_predictor 34 36)
     (PyDict (sample_order(''preparation_time'' := None, ''vehicle_type'' := None,
                           ''weather_condition'' := None))) =
     ([], Inr \<lparr>estimated_time = 35, confidence = Fin (34 / 35), prediction_std = 1\<rparr>)"
  unfolding predict_def without_optional_preprocess
  by (simp add: sample_loaded score_def forest_artifacts_def np_std_def np_mean_def np_div_def)

lemma preprocess_input_needs_distance:
  assumes "model_artifacts self = Some arts"
    and "as_frame input_data = Inr r"
    and "r ''distance_km'' = None"
  shows "\<exists>out e. preprocess_input self input_data = (out, Inl e)"
proof (cases "encode_categorical (label_encoders arts) categorical_cols r []")
  case (Pair out res)
  show ?thesis
  proof (cases res)
    case (Inl e)
    with Pair assms(1,2) show ?thesis
      by (simp add: preprocess_input_def)
  next
    case (Inr df)
    with Pair have enc:
      "encode_categorical (label_encoders arts) categorical_cols r [] = (out, Inr df)"
      by simp
    from encode_categorical_other_key [OF enc numeric_not_encoded(1)] assms(3)
    have "df ''distance_km'' = None"
      by simp
    then have "feature_engineering df = Inl (KeyError ''distance_km'')"
      by (rule feature_engineering_missing_distance)
    with enc assms(1,2) show ?thesis
      by (simp add: preprocess_input_def)
  qed
qed

text \<open>
  Claim C3. The claim does not hold for the code: the feature engineering reads
  \<^verbatim>\<open>df['distance_km']\<close> and \<^verbatim>\<open>df['delivery_person_rating']\<close> before the loop that fills the
  missing feature columns with 0, so an input without one of them raises \<^verbatim>\<open>KeyError\<close>, which
  \<^verbatim>\<open>predict\<close> reports as a failed prediction. The other columns are filled with 0: the
  last part shows the sample order without its preparation time, vehicle and weather.
\<close>

theorem missing_numeric_column_raises:
  "preprocess_input (forest_predictor 34 36) (PyDict (sample_order(''distance_km'' := None))) =
     ([], Inl (KeyError ''distance_km''))
   \<and> preprocess_input (forest_predictor 34 36)
        (PyDict (sample_order(''delivery_person_rating'' := None))) =
     ([], Inl (KeyError ''delivery_person_rating''))
   \<and> predict (forest_predictor 34 36) (PyDict (sample_order(''distance_km'' := None))) =
     ([], Inl (ValueError (''Prediction failed: '' @ [CHR 0x27] @ ''distance_km'' @ [CHR 0x27])))
   \<and> preprocess_input (forest_predictor 34 36)
        (PyDict (sample_order(''preparation_time'' := None, ''vehicle_type'' := None,
                              ''weather_condition'' := None))) =
     ([], Inr [Num (42 / 10), Num (35 / 10), Num 0, Num 0, Num 1, Num 0, Num 1, Num 0,
               Num (1225 / 100), Num (147 / 10)])"
  using without_distance_preprocess [of 34 36] without_rating_preprocess [of 34 36]
    without_distance_predict [of 34 36] without_optional_preprocess [of 34 36]
  by (simp add: prediction_failed_def)

text \<open>
  Claim C10. The claim does not hold for the code: \<^verbatim>\<open>predict_with_breakdown\<close> calls
  \<^verbatim>\<open>predict\<close> first, which fails on an input without \<^verbatim>\<open>distance_km\<close> or
  \<^verbatim>\<open>delivery_person_rating\<close>, so the fallback values 3 and 4 of these two fields are never
  used. The fallbacks of the preparation time, the vehicle and the weather are: the last
  part shows the breakdown and the factors of the sample order without these three.
\<close>

theorem fallbacks_behind_failed_predict:
  "predict_with_breakdown b64 (forest_predictor 34 36)
     (PyDict (sample_order(''distance_km'' := None))) =
     ([], Inl (ValueError (''Prediction failed: '' @ [CHR 0x27] @ ''distance_km'' @ [CHR 0x27])))
   \<and> predict_with_breakdown b64 (forest_predictor 34 36)
        (PyDict (sample_order(''delivery_person_rating'' := None))) =
     ([], Inl (ValueError
                (''Prediction failed: '' @ [CHR 0x27] @ ''delivery_person_rating'' @ [CHR 0x27])))
   \<and> predict_with_breakdown b64 (forest_predictor 34 36)
        (PyDict (sample_order(''preparation_time'' := None, ''vehicle_type'' := None,
                              ''weather_condition'' := None))) =
     ([], Inr \<lparr>estimated_time = 35, confidence = Fin (34 / 35), prediction_std = 1,
               breakdown = \<lparr>breakdown.preparation_time = 15, travel_time = 14, weather_delay = 0,
                            traffic_and_other = 6\<rparr>,
               factors = \<lparr>factors.delivery_person_rating = Num (42 / 10),
                          vehicle_type = Str ''bike'', distance_km = Num (35 / 10),
                          weather_condition = Str ''clear''\<rparr>\<rparr>)"
proof -
  have a: "predict_with_breakdown b64 (forest_predictor 34 36)
     (PyDict (sample_order(''distance_km'' := None))) =
     ([], Inl (ValueError (''Prediction failed: '' @ [CHR 0x27] @ ''distance_km'' @ [CHR 0x27])))"
    unfolding predict_with_breakdown_def without_distance_predict
    by (simp add: prediction_failed_def)
  have b: "predict_with_breakdown b64 (forest_predictor 34 36)
        (PyDict (sample_order(''delivery_person_rating'' := None))) =
     ([], Inl (ValueError
                (''Prediction failed: '' @ [CHR 0x27] @ ''delivery_person_rating'' @ [CHR 0x27])))"
    unfolding predict_with_breakdown_def without_rating_predict
    by (simp add: prediction_failed_def)
  have c: "predict_with_breakdown b64 (forest_predictor 34 36)
        (PyDict (sample_order(''preparation_time'' := None, ''vehicle_type'' := None,
                              ''weather_condition'' := None))) =
     ([], Inr \<lparr>estimated_time = 35, confidence = Fin (34 / 35), prediction_std = 1,
               breakdown = \<lparr>breakdown.preparation_time = 15, travel_time = 14, weather_delay = 0,
                            traffic_and_other = 6\<rparr>,
               factors = \<lparr>factors.delivery_person_rating = Num (42 / 10),
                          vehicle_type = Str ''bike'', distance_km = Num (35 / 10),
                          weather_condition = Str ''clear''\<rparr>\<rparr>)"
    unfolding predict_with_breakdown_def without_optional_predict
    by (simp add: params_of_def dict_get_def sample_order_def base_speed_of_def
          weather_delays_def sample_values py_round_def prediction.defs)
  from a b c show ?thesis by blast
qed

end
